theory Spec2Isabelle
  imports Complex_Main "HOL-Library.Multiset"
begin

section \<open>JavaScript values used by the annotation engine\<close>

text \<open>
  The engine is the class \<open>YouTubeNotesApp\<close> of \<open>app.js\<close>. Strings are modelled as
  \<open>string\<close> (lists of 8-bit characters), so the model covers ASCII text; numbers are
  modelled exactly: a finite number is a rational, and the two infinities are values of
  their own. \<open>NaN\<close> is not a value of \<open>jsnum\<close>: a computation that may yield it returns
  \<open>jsnum option\<close>, with \<open>None\<close> for \<open>NaN\<close>. Rounding to a double is not modelled.
\<close>

datatype jsnum = NegInf | Num rat | PosInf

text \<open>\<open>a - b\<close> on numbers; \<open>None\<close> is \<open>NaN\<close> (infinity minus the same infinity).\<close>

fun js_sub :: "jsnum \<Rightarrow> jsnum \<Rightarrow> jsnum option" where
  "js_sub (Num a) (Num b) = Some (Num (a - b))"
| "js_sub (Num a) PosInf = Some NegInf"
| "js_sub (Num a) NegInf = Some PosInf"
| "js_sub PosInf PosInf = None"
| "js_sub PosInf b = Some PosInf"
| "js_sub NegInf NegInf = None"
| "js_sub NegInf b = Some NegInf"

text \<open>\<open>v > 0\<close> for the value a comparator returned; false for \<open>NaN\<close>.\<close>

fun js_positive :: "jsnum option \<Rightarrow> bool" where
  "js_positive (Some (Num r)) = (0 < r)"
| "js_positive (Some PosInf) = True"
| "js_positive v = False"

text \<open>Truthiness of a number or \<open>null\<close>: \<open>0\<close> and \<open>null\<close> are falsy.\<close>

fun truthy_num :: "jsnum option \<Rightarrow> bool" where
  "truthy_num None = False"
| "truthy_num (Some (Num r)) = (r \<noteq> 0)"
| "truthy_num (Some v) = True"

text \<open>The usual order of the extended number line, used to state sortedness.\<close>

fun num_le :: "jsnum \<Rightarrow> jsnum \<Rightarrow> bool" where
  "num_le NegInf b = True"
| "num_le (Num a) NegInf = False"
| "num_le (Num a) (Num b) = (a \<le> b)"
| "num_le (Num a) PosInf = True"
| "num_le PosInf PosInf = True"
| "num_le PosInf b = False"

text \<open>
  \<open>Array.prototype.sort(comparefn)\<close>: a stable sort; \<open>x\<close> moves behind \<open>y\<close> exactly when
  \<open>comparefn(x, y) > 0\<close>. Elements are inserted from the right, so that of two elements
  the comparator does not separate, the one that came first stays first.
\<close>

fun sort_insert :: "('a \<Rightarrow> 'a \<Rightarrow> jsnum option) \<Rightarrow> 'a \<Rightarrow> 'a list \<Rightarrow> 'a list" where
  "sort_insert cmp x [] = [x]"
| "sort_insert cmp x (y # ys) =
     (if js_positive (cmp x y) then y # sort_insert cmp x ys else x # y # ys)"

definition array_sort :: "('a \<Rightarrow> 'a \<Rightarrow> jsnum option) \<Rightarrow> 'a list \<Rightarrow> 'a list" where
  "array_sort cmp xs = foldr (sort_insert cmp) xs []"

text \<open>
  \<open>String.prototype.trim\<close> on ASCII text: tab, line feed, vertical tab, form feed,
  carriage return and space are removed at both ends.
\<close>

definition is_ws :: "char \<Rightarrow> bool" where
  "is_ws c = (c = CHR 0x09 \<or> c = CHR 0x0A \<or> c = CHR 0x0B \<or> c = CHR 0x0C \<or> c = CHR 0x0D
              \<or> c = CHR '' '')"

definition trim :: "string \<Rightarrow> string" where
  "trim s = rev (dropWhile is_ws (rev (dropWhile is_ws s)))"

text \<open>\<open>Number.prototype.toString\<close> on a non-negative integer: its decimal digits.\<close>

definition digit_char :: "nat \<Rightarrow> char" where
  "digit_char d = ''0123456789'' ! d"

fun toString :: "nat \<Rightarrow> string" where
  "toString n = (if n < 10 then [digit_char n] else toString (n div 10) @ [digit_char (n mod 10)])"

declare toString.simps [simp del]

section \<open>The data model\<close>

text \<open>
  A note as \<open>addNote\<close> builds it: \<open>{id, text, people, timestamp, createdAt}\<close>, with
  \<open>updatedAt\<close> set by \<open>updateNote\<close> only.
\<close>

record jsnote =
  note_id :: string
  note_text :: string
  note_people :: "string list"
  timestamp :: jsnum
  createdAt :: string
  updatedAt :: "string option"

text \<open>The fields of the application object that the engine reads and writes.\<close>

record app =
  people :: "string list"
  "notes" :: "jsnote list"
  videoId :: "string option"
  videoUrl :: string
  currentTime :: jsnum
  currentMode :: string

text \<open>
  What an operation reads from outside the application object: the clock
  (\<open>Date.now()\<close> and \<open>new Date().toISOString()\<close>) and the page (whether the element
  \<open>notes-list\<close> exists, the values of the selected options of \<open>people-filter\<close>, empty when
  the element is missing, and the value of \<open>filter-mode\<close>, \<open>None\<close> when it is missing).
  \<open>saveData\<close> copies the state to \<open>localStorage\<close> and changes none of the fields above,
  and the rendering functions only write to the page; both are left out.
\<close>

record env =
  now_ms :: nat
  now_iso :: string
  notes_list_present :: bool
  selectedOptions :: "string list"
  filter_mode_value :: "string option"

section \<open>Identity Registry\<close>

definition addPerson :: "string \<Rightarrow> app \<Rightarrow> app" where
  "addPerson name s =
     (if name = [] \<or> name \<in> set (people s) then s
      else s\<lparr>people := people s @ [name]\<rparr>)"

definition removePerson :: "string \<Rightarrow> app \<Rightarrow> app" where
  "removePerson name s = s\<lparr>people := filter (\<lambda>p. p \<noteq> name) (people s)\<rparr>"

section \<open>Filter Engine\<close>

text \<open>The comparator \<open>(a, b) => a.timestamp - b.timestamp\<close>.\<close>

definition by_timestamp :: "jsnote \<Rightarrow> jsnote \<Rightarrow> jsnum option" where
  "by_timestamp a b = js_sub (timestamp a) (timestamp b)"

text \<open>A list of notes in ascending order of timestamp.\<close>

abbreviation ts_sorted :: "jsnote list \<Rightarrow> bool" where
  "ts_sorted \<equiv> sorted_wrt (\<lambda>a b. num_le (timestamp a) (timestamp b))"

definition filterMode :: "env \<Rightarrow> string" where
  "filterMode e = (case filter_mode_value e of None \<Rightarrow> ''or''
                   | Some v \<Rightarrow> if v = [] then ''or'' else v)"

definition selectedPeople :: "env \<Rightarrow> string list" where
  "selectedPeople e = filter (\<lambda>v. v \<noteq> []) (selectedOptions e)"

definition note_matches :: "string \<Rightarrow> string list \<Rightarrow> jsnote \<Rightarrow> bool" where
  "note_matches mode sel n =
     (if mode = ''and'' then list_all (\<lambda>person. person \<in> set (note_people n)) sel
      else list_ex (\<lambda>person. person \<in> set (note_people n)) sel)"

text \<open>
  \<open>getFilteredNotes\<close> returns the view and the application object afterwards: with an
  empty selection it returns \<open>this.notes.sort(...)\<close>, and \<open>sort\<close> orders the array it is
  called on; with a selection it sorts the fresh array \<open>filter\<close> made.
\<close>

definition getFilteredNotes :: "env \<Rightarrow> app \<Rightarrow> jsnote list \<times> app" where
  "getFilteredNotes e s =
     (if length (selectedPeople e) = 0
      then (array_sort by_timestamp (notes s), s\<lparr>notes := array_sort by_timestamp (notes s)\<rparr>)
      else (array_sort by_timestamp
              (filter (note_matches (filterMode e) (selectedPeople e)) (notes s)), s))"

definition renderNotes :: "env \<Rightarrow> app \<Rightarrow> app" where
  "renderNotes e s = (if \<not> notes_list_present e then s else snd (getFilteredNotes e s))"

section \<open>Annotation Store\<close>

text \<open>The loop \<open>note.people.forEach(person => ...)\<close> that registers unknown names.\<close>

definition register_people :: "string list \<Rightarrow> app \<Rightarrow> app" where
  "register_people ps s =
     fold (\<lambda>person st. if person \<notin> set (people st) then addPerson person st else st) ps s"

text \<open>
  \<open>addNote(text, people = [], timestamp = null)\<close>; the timestamp argument is \<open>None\<close> when
  it is omitted or \<open>null\<close>.
\<close>

definition addNote :: "env \<Rightarrow> string \<Rightarrow> string list \<Rightarrow> jsnum option \<Rightarrow> app \<Rightarrow> app" where
  "addNote e txt ppl ts s =
     (if trim txt = [] then s
      else
        let note = \<lparr>note_id = toString (now_ms e),
                    note_text = trim txt,
                    note_people = filter (\<lambda>p. trim p \<noteq> []) ppl,
                    timestamp = (if truthy_num ts then the ts else currentTime s),
                    createdAt = now_iso e,
                    updatedAt = None\<rparr>
        in register_people (note_people note)
             (renderNotes e (s\<lparr>notes := notes s @ [note]\<rparr>)))"

text \<open>\<open>find\<close> gives the first note with the id, and the assignments change that note.\<close>

fun update_first :: "('a \<Rightarrow> bool) \<Rightarrow> ('a \<Rightarrow> 'a) \<Rightarrow> 'a list \<Rightarrow> 'a list" where
  "update_first P f [] = []"
| "update_first P f (x # xs) = (if P x then f x # xs else x # update_first P f xs)"

definition updateNote :: "env \<Rightarrow> string \<Rightarrow> string \<Rightarrow> string list \<Rightarrow> jsnum \<Rightarrow> app \<Rightarrow> app" where
  "updateNote e i txt ppl ts s =
     (case find (\<lambda>n. note_id n = i) (notes s) of
        None \<Rightarrow> s
      | Some found \<Rightarrow>
          register_people (filter (\<lambda>p. trim p \<noteq> []) ppl)
            (renderNotes e
               (s\<lparr>notes := update_first (\<lambda>n. note_id n = i)
                    (\<lambda>n. n\<lparr>note_text := trim txt,
                            note_people := filter (\<lambda>p. trim p \<noteq> []) ppl,
                            timestamp := ts,
                            updatedAt := Some (now_iso e)\<rparr>)
                    (notes s)\<rparr>)))"

definition deleteNote :: "env \<Rightarrow> string \<Rightarrow> app \<Rightarrow> app" where
  "deleteNote e i s = renderNotes e (s\<lparr>notes := filter (\<lambda>n. note_id n \<noteq> i) (notes s)\<rparr>)"

text \<open>
  The names of a list in the order in which they are first met, each once: the order in
  which the loop above registers names that are all new.
\<close>

function first_seen :: "'a list \<Rightarrow> 'a list" where
  "first_seen [] = []"
| "first_seen (x # xs) = x # first_seen (filter (\<lambda>y. y \<noteq> x) xs)"
  by pat_completeness auto
termination
  by (relation "measure length") (auto simp: less_Suc_eq_le)

section \<open>Timestamp Parser\<close>

text \<open>
  \<open>parseFloat\<close>: leading white space is dropped, and the longest prefix that is a decimal
  literal gives the value: an optional sign, then \<open>Infinity\<close>, or digits with an optional
  fraction and exponent, or a fraction that starts with the point. The result is
  \<open>None\<close> (\<open>NaN\<close>) when no prefix is a literal. The value is the exact decimal value;
  \<open>-0\<close> is \<open>0\<close>.
\<close>

definition is_digit :: "char \<Rightarrow> bool" where
  "is_digit c = (c \<in> set ''0123456789'')"

definition digit_val :: "char \<Rightarrow> nat" where
  "digit_val c = of_char c - 48"

definition digits_val :: "string \<Rightarrow> nat" where
  "digits_val ds = foldl (\<lambda>a c. 10 * a + digit_val c) 0 ds"

text \<open>The exponent a literal's tail gives: \<open>e\<close> or \<open>E\<close>, an optional sign, digits.\<close>

definition exponent_part :: "string \<Rightarrow> int" where
  "exponent_part r =
     (case r of
        [] \<Rightarrow> 0
      | c # r1 \<Rightarrow>
          if c = CHR ''e'' \<or> c = CHR ''E'' then
            (case r1 of
               [] \<Rightarrow> 0
             | s # r2 \<Rightarrow>
                 if s = CHR ''+'' then
                   (if takeWhile is_digit r2 = [] then 0
                    else int (digits_val (takeWhile is_digit r2)))
                 else if s = CHR ''-'' then
                   (if takeWhile is_digit r2 = [] then 0
                    else - int (digits_val (takeWhile is_digit r2)))
                 else if takeWhile is_digit r1 = [] then 0
                 else int (digits_val (takeWhile is_digit r1)))
          else 0)"

definition scale10 :: "rat \<Rightarrow> int \<Rightarrow> rat" where
  "scale10 m ex = (if 0 \<le> ex then m * 10 ^ nat ex else m / 10 ^ nat (- ex))"

definition unsigned_literal :: "string \<Rightarrow> jsnum option" where
  "unsigned_literal s =
     (if take 8 s = ''Infinity'' then Some PosInf
      else
        let ip = takeWhile is_digit s; r1 = dropWhile is_digit s in
        (case r1 of
           [] \<Rightarrow> if ip = [] then None else Some (Num (of_nat (digits_val ip)))
         | c # r2 \<Rightarrow>
             if c = CHR ''.'' then
               (let fp = takeWhile is_digit r2; r3 = dropWhile is_digit r2 in
                if ip = [] \<and> fp = [] then None
                else Some (Num (scale10 (of_nat (digits_val (ip @ fp)) / 10 ^ length fp)
                                  (exponent_part r3))))
             else if ip = [] then None
             else Some (Num (scale10 (of_nat (digits_val ip)) (exponent_part r1)))))"

fun negate :: "jsnum \<Rightarrow> jsnum" where
  "negate (Num r) = Num (- r)"
| "negate PosInf = NegInf"
| "negate NegInf = PosInf"

definition parseFloat :: "string \<Rightarrow> jsnum option" where
  "parseFloat input =
     (case dropWhile is_ws input of
        [] \<Rightarrow> None
      | c # r \<Rightarrow>
          if c = CHR ''+'' then unsigned_literal r
          else if c = CHR ''-'' then map_option negate (unsigned_literal r)
          else unsigned_literal (c # r))"

text \<open>\<open>!isNaN(seconds) && seconds >= 0\<close>.\<close>

fun not_nan_and_ge0 :: "jsnum option \<Rightarrow> bool" where
  "not_nan_and_ge0 None = False"
| "not_nan_and_ge0 (Some (Num r)) = (0 \<le> r)"
| "not_nan_and_ge0 (Some PosInf) = True"
| "not_nan_and_ge0 (Some NegInf) = False"

text \<open>
  \<open>input.match(/^(\d+):(\d{2})$/)\<close>: the two groups when the whole input is one or more
  digits, a colon and two digits. The colon is no digit, so the first group is the
  longest run of digits the input starts with.
\<close>

definition timeMatch :: "string \<Rightarrow> (string \<times> string) option" where
  "timeMatch input =
     (case dropWhile is_digit input of
        [c, d1, d2] \<Rightarrow>
          if takeWhile is_digit input \<noteq> [] \<and> c = CHR '':'' \<and> is_digit d1 \<and> is_digit d2
          then Some (takeWhile is_digit input, [d1, d2]) else None
      | _ \<Rightarrow> None)"

text \<open>\<open>parseTimestamp\<close>; \<open>None\<close> is the result \<open>null\<close>. \<open>parseInt\<close> of a run of digits is
  its decimal value.\<close>

definition parseTimestamp :: "string \<Rightarrow> jsnum option" where
  "parseTimestamp input =
     (if input = [] then None
      else if not_nan_and_ge0 (parseFloat input) then parseFloat input
      else
        (case timeMatch input of
           Some (m, ss) \<Rightarrow>
             if digits_val ss < 60 then Some (Num (of_nat (digits_val m * 60 + digits_val ss)))
             else None
         | None \<Rightarrow> None))"

section \<open>Project Serializer\<close>

text \<open>
  A document is modelled by the value \<open>JSON.parse\<close> gives for its text. An object is the
  list of its members in the order of the text; a number is finite, or an infinity when
  the literal is too large for a double.
\<close>

datatype json =
    JNull
  | JBool bool
  | JNum jsnum
  | JStr string
  | JArr "json list"
  | JObj "(string \<times> json) list"

text \<open>
  Reading the property \<open>k\<close> of a value other than \<open>null\<close>; \<open>None\<close> is \<open>undefined\<close>. Of
  members with the same name \<open>JSON.parse\<close> keeps the last. Numbers, strings, booleans
  and arrays have none of the properties the engine reads.
\<close>

fun get_prop :: "json \<Rightarrow> string \<Rightarrow> json option" where
  "get_prop (JObj kvs) k = map_of (rev kvs) k"
| "get_prop v k = None"

fun truthy :: "json \<Rightarrow> bool" where
  "truthy JNull = False"
| "truthy (JBool b) = b"
| "truthy (JNum (Num r)) = (r \<noteq> 0)"
| "truthy (JNum v) = True"
| "truthy (JStr s) = (s \<noteq> [])"
| "truthy (JArr xs) = True"
| "truthy (JObj kvs) = True"

text \<open>\<open>v || []\<close> for a property that may be \<open>undefined\<close>.\<close>

definition or_empty :: "json option \<Rightarrow> json" where
  "or_empty v = (case v of None \<Rightarrow> JArr [] | Some j \<Rightarrow> if truthy j then j else JArr [])"

text \<open>
  What \<open>JSON.stringify\<close> followed by \<open>JSON.parse\<close> makes of the values the engine
  writes. A finite number comes back as it is; an infinity is written as \<open>null\<close>. A
  property that was never set (\<open>updatedAt\<close> of a note that was not edited) is absent.
\<close>

fun json_of_num :: "jsnum \<Rightarrow> json" where
  "json_of_num (Num r) = JNum (Num r)"
| "json_of_num v = JNull"

definition json_of_note :: "jsnote \<Rightarrow> json" where
  "json_of_note n =
     JObj ([(''id'', JStr (note_id n)),
            (''text'', JStr (note_text n)),
            (''people'', JArr (map JStr (note_people n))),
            (''timestamp'', json_of_num (timestamp n)),
            (''createdAt'', JStr (createdAt n))]
           @ (case updatedAt n of None \<Rightarrow> [] | Some u \<Rightarrow> [(''updatedAt'', JStr u)]))"

definition json_of_videoId :: "string option \<Rightarrow> json" where
  "json_of_videoId v = (case v of None \<Rightarrow> JNull | Some i \<Rightarrow> JStr i)"

text \<open>
  The typed reading of a stored value: a list of strings for \<open>this.people\<close>, a list of
  notes for \<open>this.notes\<close>. The code stores whatever the document holds; \<open>None\<close> marks a
  value that is no such list, which the typed state of this model cannot hold. Members
  of a note other than the six of \<open>jsnote\<close> are not part of the model.
\<close>

fun decode_strings :: "json list \<Rightarrow> string list option" where
  "decode_strings [] = Some []"
| "decode_strings (JStr x # r) = map_option (\<lambda>xs. x # xs) (decode_strings r)"
| "decode_strings (v # r) = None"

definition decode_people :: "json \<Rightarrow> string list option" where
  "decode_people j = (case j of JArr xs \<Rightarrow> decode_strings xs | _ \<Rightarrow> None)"

definition decode_note :: "json \<Rightarrow> jsnote option" where
  "decode_note j =
     (case (get_prop j ''id'', get_prop j ''text'', get_prop j ''people'', get_prop j ''timestamp'',
            get_prop j ''createdAt'') of
        (Some (JStr i), Some (JStr t), Some (JArr ps), Some (JNum ts), Some (JStr c)) \<Rightarrow>
          (case decode_strings ps of
             None \<Rightarrow> None
           | Some pl \<Rightarrow>
               (case get_prop j ''updatedAt'' of
                  None \<Rightarrow> Some \<lparr>note_id = i, note_text = t, note_people = pl, timestamp = ts,
                                  createdAt = c, updatedAt = None\<rparr>
                | Some (JStr u) \<Rightarrow> Some \<lparr>note_id = i, note_text = t, note_people = pl,
                                          timestamp = ts, createdAt = c, updatedAt = Some u\<rparr>
                | Some v \<Rightarrow> None))
      | _ \<Rightarrow> None)"

fun decode_note_list :: "json list \<Rightarrow> jsnote list option" where
  "decode_note_list [] = Some []"
| "decode_note_list (j # r) =
     (case decode_note j of
        None \<Rightarrow> None
      | Some n \<Rightarrow> map_option (\<lambda>ns. n # ns) (decode_note_list r))"

definition decode_notes :: "json \<Rightarrow> jsnote list option" where
  "decode_notes j = (case j of JArr xs \<Rightarrow> decode_note_list xs | _ \<Rightarrow> None)"

text \<open>
  The argument of \<open>if (data.youtubeId) this.loadVideoFromId(data.youtubeId)\<close>:
  \<open>Some None\<close> when the value is falsy and the call is skipped, \<open>Some (Some v)\<close> for a
  non-empty string, \<open>None\<close> for a truthy value that is no string.
\<close>

definition decode_youtubeId :: "json option \<Rightarrow> string option option" where
  "decode_youtubeId v =
     (case v of
        None \<Rightarrow> Some None
      | Some (JStr i) \<Rightarrow> if i = [] then Some None else Some (Some i)
      | Some j \<Rightarrow> if truthy j then None else Some None)"

definition watch_url :: "string \<Rightarrow> string" where
  "watch_url v = ''https://www.youtube.com/watch?v='' @ v"

text \<open>\<open>loadVideoFromId\<close>; creating or reloading the player is outside the model.\<close>

definition loadVideoFromId :: "string \<Rightarrow> app \<Rightarrow> app" where
  "loadVideoFromId v s = s\<lparr>videoId := Some v, videoUrl := watch_url v\<rparr>"

text \<open>
  What the user is shown: the calls of \<open>showError\<close> and \<open>showSuccess\<close> in the load
  functions, by message. The success of a named project carries \<open>metadata.name\<close>.
\<close>

datatype report =
    Error_invalid_file_type
  | Error_file_too_large
  | Error_loading_project
  | Error_importing_data
  | Success_data_imported
  | Success_project_loaded "json option"

fun is_error :: "report \<Rightarrow> bool" where
  "is_error Error_invalid_file_type = True"
| "is_error Error_file_too_large = True"
| "is_error Error_loading_project = True"
| "is_error Error_importing_data = True"
| "is_error r = False"

text \<open>
  Of the page, beyond what \<open>env\<close> holds, a load depends on whether the element
  \<open>people-list\<close> exists: \<open>renderPeople\<close> returns at once without it.
\<close>

record page =
  people_list_present :: bool

text \<open>
  The outcome of a load.
  \<^item> \<open>Done r s\<close>: \<open>r\<close> was reported and the state is \<open>s\<close>.
  \<^item> \<open>Overwritten r v p n\<close>: \<open>r\<close> was reported; the state is the one before the load with
    the video \<open>v\<close> loaded by \<open>loadVideoFromId\<close> when \<open>v\<close> is given, and with \<open>this.people\<close> and
    \<open>this.notes\<close> holding the values \<open>p\<close> and \<open>n\<close>, of which one is no list of strings or no
    list of notes; \<open>saveData\<close> has stored them.
  \<^item> \<open>Unmodelled\<close>: the document has a member that the code converts to text or renders
    in a way this model does not follow; nothing is said about such a load.
\<close>

datatype outcome = Done report app | Overwritten report "string option" json json | Unmodelled

text \<open>
  A file the user picked: its name, its size in bytes, and its text as \<open>JSON.parse\<close>
  reads it, \<open>None\<close> when \<open>JSON.parse\<close> throws.
\<close>

record picked_file =
  file_name :: string
  file_size :: nat
  parsed :: "json option"

definition is_array :: "json \<Rightarrow> bool" where
  "is_array j = (case j of JArr xs \<Rightarrow> True | _ \<Rightarrow> False)"

definition is_number :: "json \<Rightarrow> bool" where
  "is_number j = (case j of JNum n \<Rightarrow> True | _ \<Rightarrow> False)"

text \<open>
  A note as the application writes it to a document: the members of a typed note, with
  a timestamp that is a number or \<open>null\<close>.
\<close>

definition written_note :: "json \<Rightarrow> bool" where
  "written_note j =
     (case (get_prop j ''id'', get_prop j ''text'', get_prop j ''people'',
            get_prop j ''timestamp'', get_prop j ''createdAt'') of
        (Some (JStr i), Some (JStr t), Some (JArr ps), Some ts, Some (JStr c)) \<Rightarrow>
          (ts = JNull \<or> is_number ts) \<and> decode_strings ps \<noteq> None
          \<and> (case get_prop j ''updatedAt'' of
                None \<Rightarrow> True
              | Some (JStr u) \<Rightarrow> True
              | Some v \<Rightarrow> False)
      | _ \<Rightarrow> False)"

text \<open>
  The comparator \<open>(a, b) => a.timestamp - b.timestamp\<close> on written notes: the subtraction
  converts \<open>null\<close> to \<open>0\<close>.
\<close>

definition raw_timestamp :: "json \<Rightarrow> jsnum" where
  "raw_timestamp j = (case get_prop j ''timestamp'' of Some (JNum n) \<Rightarrow> n | _ \<Rightarrow> Num 0)"

definition raw_by_timestamp :: "json \<Rightarrow> json \<Rightarrow> jsnum option" where
  "raw_by_timestamp a b = js_sub (raw_timestamp a) (raw_timestamp b)"

text \<open>
  The statements \<open>importData\<close> and the project branch of \<open>loadProject\<close> both run on the
  object \<open>data\<close> that holds the project: load the video when there is one, assign
  \<open>this.people\<close> and \<open>this.notes\<close>, save, render the Registry, render the notes, and report
  \<open>ok\<close>; an exception on the way is caught and \<open>err\<close> is reported.
  \<^item> When both values are typed, nothing throws.
  \<^item> When the people are typed and the notes are written notes, nothing throws either:
    a timestamp \<open>null\<close> is rendered as an invalid timestamp. Rendering sorts the stored
    array as it sorts a typed Store.
  \<^item> When the people are typed and \<open>this.notes\<close> is no array, \<open>renderNotes\<close> throws on
    \<open>sort\<close> or \<open>filter\<close>, if the page has the notes list.
  \<^item> When \<open>this.people\<close> is no array, \<open>renderPeople\<close> throws on \<open>map\<close>, if the page has the
    people list.
  \<^item> Every other document is left unmodelled: a video id that is no string, people
    that are no strings, notes with other members.
\<close>

definition replace_project :: "env \<Rightarrow> page \<Rightarrow> report \<Rightarrow> report \<Rightarrow> json \<Rightarrow> app \<Rightarrow> outcome" where
  "replace_project e pg ok err d s =
     (case decode_youtubeId (get_prop d ''youtubeId'') of
        None \<Rightarrow> Unmodelled
      | Some vid \<Rightarrow>
          (case decode_people (or_empty (get_prop d ''people'')) of
             Some ps \<Rightarrow>
               (case decode_notes (or_empty (get_prop d ''notes'')) of
                  Some ns \<Rightarrow>
                    Done ok (renderNotes e
                      ((case vid of None \<Rightarrow> s | Some v \<Rightarrow> loadVideoFromId v s)
                         \<lparr>people := ps, notes := ns\<rparr>))
                | None \<Rightarrow>
                    (case or_empty (get_prop d ''notes'') of
                       JArr xs \<Rightarrow>
                         if list_all written_note xs then
                           Overwritten ok vid (or_empty (get_prop d ''people''))
                             (JArr (if notes_list_present e \<and> selectedPeople e = []
                                    then array_sort raw_by_timestamp xs else xs))
                         else Unmodelled
                     | n \<Rightarrow>
                         if notes_list_present e
                         then Overwritten err vid (or_empty (get_prop d ''people'')) n
                         else Unmodelled))
           | None \<Rightarrow>
               if \<not> is_array (or_empty (get_prop d ''people'')) \<and> people_list_present pg
               then Overwritten err vid (or_empty (get_prop d ''people''))
                      (or_empty (get_prop d ''notes''))
               else Unmodelled))"

text \<open>
  \<open>importData\<close>, run to the end of the reader's callback. Reading a property of \<open>null\<close>
  throws, and the \<open>catch\<close> reports it like a text that does not parse.
\<close>

definition importData :: "env \<Rightarrow> page \<Rightarrow> picked_file \<Rightarrow> app \<Rightarrow> outcome" where
  "importData e pg f s =
     (case parsed f of
        None \<Rightarrow> Done Error_importing_data s
      | Some d \<Rightarrow>
          if d = JNull then Done Error_importing_data s
          else replace_project e pg Success_data_imported Error_importing_data d s)"

text \<open>\<open>toLowerCase\<close> on ASCII text and \<open>endsWith\<close>.\<close>

definition lower_char :: "char \<Rightarrow> char" where
  "lower_char c =
     (case map_of (zip ''ABCDEFGHIJKLMNOPQRSTUVWXYZ'' ''abcdefghijklmnopqrstuvwxyz'') c of
        None \<Rightarrow> c | Some l \<Rightarrow> l)"

definition toLowerCase :: "string \<Rightarrow> string" where
  "toLowerCase s = map lower_char s"

definition endsWith :: "string \<Rightarrow> string \<Rightarrow> bool" where
  "endsWith s ext = (length ext \<le> length s \<and> drop (length s - length ext) s = ext)"

text \<open>
  \<open>updateProjectInfo\<close> writes \<open>metadata.name\<close>, \<open>created\<close>, \<open>lastModified\<close> and
  \<open>description\<close> to the page as text; a member that is absent, \<open>null\<close>, a boolean, a
  number or a string is converted without an exception.
\<close>

definition displayable :: "json \<Rightarrow> string \<Rightarrow> bool" where
  "displayable metadata k =
     (case get_prop metadata k of
        Some (JArr xs) \<Rightarrow> False
      | Some (JObj kvs) \<Rightarrow> False
      | _ \<Rightarrow> True)"

text \<open>
  \<open>loadProject\<close>, run to the end of the reader's callback. A named project whose
  metadata holds an array or an object where a text is shown is left unmodelled.
\<close>

definition loadProject :: "env \<Rightarrow> page \<Rightarrow> picked_file \<Rightarrow> app \<Rightarrow> outcome" where
  "loadProject e pg f s =
     (if \<not> list_ex (\<lambda>ext. endsWith (toLowerCase (file_name f)) ext) [''.ynp'', ''.json'', ''.txt'']
      then Done Error_invalid_file_type s
      else if file_size f > 10 * 1024 * 1024 then Done Error_file_too_large s
      else
        (case parsed f of
           None \<Rightarrow> Done Error_loading_project s
         | Some projectData \<Rightarrow>
             if projectData = JNull then Done Error_loading_project s
             else
               (case (get_prop projectData ''metadata'', get_prop projectData ''data'') of
                  (Some metadata, Some d) \<Rightarrow>
                    if truthy metadata \<and> truthy d then
                      (if list_all (displayable metadata)
                            [''name'', ''created'', ''lastModified'', ''description'']
                       then replace_project e pg (Success_project_loaded (get_prop metadata ''name''))
                              Error_loading_project d s
                       else Unmodelled)
                    else importData e pg f s
                | _ \<Rightarrow> importData e pg f s)))"

text \<open>
  The object \<open>exportData\<close>, \<open>saveProjectAs\<close> and \<open>saveProjectAsHTML\<close> build from the state,
  as a document.
\<close>

definition project_data :: "string \<Rightarrow> app \<Rightarrow> json" where
  "project_data mode s =
     JObj [(''youtubeId'', json_of_videoId (videoId s)),
           (''videoUrl'', JStr (videoUrl s)),
           (''people'', JArr (map JStr (people s))),
           (''notes'', JArr (map json_of_note (notes s))),
           (''settings'', JObj [(''currentMode'', JStr mode)])]"

text \<open>\<open>this.videoId || 'project'\<close> in the name of a download.\<close>

definition videoId_or_project :: "app \<Rightarrow> string" where
  "videoId_or_project s =
     (case videoId s of None \<Rightarrow> ''project'' | Some v \<Rightarrow> if v = [] then ''project'' else v)"

text \<open>\<open>exportData\<close>: the name and the document of the download.\<close>

definition exportData :: "app \<Rightarrow> string \<times> json" where
  "exportData s =
     (''youtube-notes-'' @ videoId_or_project s @ ''.json'', project_data (currentMode s) s)"


text \<open>
  \<open>generateSelfContainedHTML\<close> writes the Registry into the text of the embedded runtime
  as the statement \<open>this.people = ${JSON.stringify(data.people)};\<close>, and the runtime into
  the page as \<open><script>${js}</script>\<close>. \<open>JSON.stringify\<close> quotes a string and escapes the
  quote, the backslash and the control characters, nothing else.
\<close>

definition hex_char :: "nat \<Rightarrow> char" where
  "hex_char d = ''0123456789abcdef'' ! d"

definition json_escape :: "char \<Rightarrow> string" where
  "json_escape c =
     (if c = CHR 0x22 then [CHR 0x5C, CHR 0x22]
      else if c = CHR 0x5C then [CHR 0x5C, CHR 0x5C]
      else if c = CHR 0x08 then [CHR 0x5C, CHR ''b'']
      else if c = CHR 0x09 then [CHR 0x5C, CHR ''t'']
      else if c = CHR 0x0A then [CHR 0x5C, CHR ''n'']
      else if c = CHR 0x0C then [CHR 0x5C, CHR ''f'']
      else if c = CHR 0x0D then [CHR 0x5C, CHR ''r'']
      else if (of_char c :: nat) < 32
        then [CHR 0x5C, CHR ''u'', CHR ''0'', CHR ''0'',
              hex_char (of_char c div 16), hex_char (of_char c mod 16)]
      else [c])"

definition stringify_string :: "string \<Rightarrow> string" where
  "stringify_string x = CHR 0x22 # concat (map json_escape x) @ [CHR 0x22]"

fun comma_joined :: "string list \<Rightarrow> string" where
  "comma_joined [] = []"
| "comma_joined [x] = x"
| "comma_joined (x # y # r) = x @ '','' @ comma_joined (y # r)"

definition stringify_strings :: "string list \<Rightarrow> string" where
  "stringify_strings xs = ''['' @ comma_joined (map stringify_string xs) @ '']''"

definition people_statement :: "app \<Rightarrow> string" where
  "people_statement s = ''this.people = '' @ stringify_strings (people s) @ '';''"

text \<open>
  The text a browser takes as the content of a script element, given the text after
  the start tag: it stops before the first \<open></script\<close> (in any case of letters) that is
  followed by white space, a slash or \<open>>\<close>. Exact for a text without \<open><!--\<close>.
\<close>

definition closes_script :: "string \<Rightarrow> bool" where
  "closes_script t =
     (toLowerCase (take 8 t) = ''</script''
      \<and> (case drop 8 t of
            [] \<Rightarrow> False
          | d # r \<Rightarrow> d = CHR 0x09 \<or> d = CHR 0x0A \<or> d = CHR 0x0C \<or> d = CHR '' ''
                      \<or> d = CHR ''/'' \<or> d = CHR ''>''))"

fun script_data :: "string \<Rightarrow> string" where
  "script_data [] = []"
| "script_data (c # r) = (if closes_script (c # r) then [] else c # script_data r)"


section \<open>Example values\<close>

text \<open>
  The three notes of the specification's filter example, \<open>A{people:[x]}\<close>,
  \<open>B{people:[x,y]}\<close> and \<open>C{people:[y]}\<close>, stored in the order \<open>A, B, C\<close> with
  timestamps 30, 10 and 20 seconds.
\<close>

definition note_A :: jsnote where
  "note_A = \<lparr>note_id = ''1700000000001'', note_text = ''A'', note_people = [''x''],
             timestamp = Num 30, createdAt = ''2023-11-14T22:13:20.001Z'', updatedAt = None\<rparr>"

definition note_B :: jsnote where
  "note_B = \<lparr>note_id = ''1700000000002'', note_text = ''B'', note_people = [''x'', ''y''],
             timestamp = Num 10, createdAt = ''2023-11-14T22:13:20.002Z'', updatedAt = None\<rparr>"

definition note_C :: jsnote where
  "note_C = \<lparr>note_id = ''1700000000003'', note_text = ''C'', note_people = [''y''],
             timestamp = Num 20, createdAt = ''2023-11-14T22:13:20.003Z'', updatedAt = None\<rparr>"

definition example_app :: app where
  "example_app = \<lparr>people = [''x'', ''y''], notes = [note_A, note_B, note_C],
                  videoId = None, videoUrl = [], currentTime = Num 42,
                  currentMode = ''edit''\<rparr>"

text \<open>A page showing the notes list, with the given selection and filter mode.\<close>

definition example_env :: "string list \<Rightarrow> string \<Rightarrow> env" where
  "example_env sel mode = \<lparr>now_ms = 1700000000500, now_iso = ''2023-11-14T22:13:20.500Z'',
                            notes_list_present = True, selectedOptions = sel,
                            filter_mode_value = Some mode\<rparr>"

text \<open>
  A download picked again as a file of \<open>sz\<close> bytes, a file with the text \<open>{}\<close>, and a
  file whose text is no JSON.
\<close>

definition downloaded :: "nat \<Rightarrow> string \<times> json \<Rightarrow> picked_file" where
  "downloaded sz d = \<lparr>file_name = fst d, file_size = sz, parsed = Some (snd d)\<rparr>"

definition empty_object_file :: picked_file where
  "empty_object_file = \<lparr>file_name = ''notes.ynp'', file_size = 2, parsed = Some (JObj [])\<rparr>"

definition broken_file :: picked_file where
  "broken_file = \<lparr>file_name = ''notes.ynp'', file_size = 5, parsed = None\<rparr>"

text \<open>A file with the text \<open>{"people":5}\<close>, and the page with its people list.\<close>

definition people_number_file :: picked_file where
  "people_number_file = \<lparr>file_name = ''notes.json'', file_size = 12,
                          parsed = Some (JObj [(''people'', JNum (Num 5))])\<rparr>"

definition example_page :: page where
  "example_page = \<lparr>people_list_present = True\<rparr>"



section \<open>Statement of the round trip\<close>


text \<open>A load that fails: an error is reported and the state is the one before.\<close>

definition fails_keeping :: "app \<Rightarrow> outcome \<Rightarrow> bool" where
  "fails_keeping s out =
     (case out of Done r s' \<Rightarrow> is_error r \<and> s' = s | _ \<Rightarrow> False)"

section \<open>Properties of the Identity Registry\<close>

text \<open>
  C10: removing an identity removes every occurrence of the name from the Registry and
  leaves the Annotation Store as it was: every note is still there, in place, with the
  same text, timestamp and identity list, so a note that named the identity still names
  it.
\<close>

theorem removePerson_keeps_notes:
  "name \<notin> set (people (removePerson name s))
   \<and> people (removePerson name s) = filter (\<lambda>p. p \<noteq> name) (people s)
   \<and> notes (removePerson name s) = notes s"
  by (simp add: removePerson_def)

section \<open>Sorting by timestamp\<close>

lemma js_positive_sub: "js_positive (js_sub a b) \<longleftrightarrow> \<not> num_le a b"
  by (cases a; cases b) auto

lemma num_le_trans: "num_le a b \<Longrightarrow> num_le b c \<Longrightarrow> num_le a c"
  by (cases a; cases b; cases c) auto

lemma num_le_total: "num_le a b \<or> num_le b a"
  by (cases a; cases b) auto

lemma mset_sort_insert: "mset (sort_insert cmp x ys) = add_mset x (mset ys)"
  by (induction ys) auto

lemma mset_array_sort: "mset (array_sort cmp xs) = mset xs"
  by (induction xs) (auto simp: array_sort_def mset_sort_insert)

lemma set_sort_insert: "set (sort_insert cmp x ys) = insert x (set ys)"
  by (induction ys) auto

lemma sorted_sort_insert:
  "ts_sorted ys \<Longrightarrow> ts_sorted (sort_insert by_timestamp x ys)"
proof (induction ys)
  case Nil
  then show ?case by simp
next
  case (Cons y ys)
  show ?case
  proof (cases "js_positive (by_timestamp x y)")
    case True
    then have "num_le (timestamp y) (timestamp x)"
      using num_le_total [of "timestamp x" "timestamp y"]
      by (simp add: by_timestamp_def js_positive_sub)
    with Cons True show ?thesis
      by (auto simp: set_sort_insert)
  next
    case False
    then have xy: "num_le (timestamp x) (timestamp y)"
      by (simp add: by_timestamp_def js_positive_sub)
    have "num_le (timestamp x) (timestamp z)" if "z \<in> set ys" for z
      using Cons.prems that xy num_le_trans by auto
    with Cons.prems False xy show ?thesis by auto
  qed
qed

lemma sorted_array_sort: "ts_sorted (array_sort by_timestamp xs)"
  by (induction xs) (auto simp: array_sort_def sorted_sort_insert)

section \<open>Properties of the Filter Engine\<close>

lemma note_matches_or:
  "mode \<noteq> ''and'' \<Longrightarrow>
   note_matches mode sel = (\<lambda>n. \<exists>p\<in>set sel. p \<in> set (note_people n))"
  by (simp add: note_matches_def list_ex_iff fun_eq_iff)

lemma note_matches_and:
  "note_matches ''and'' sel = (\<lambda>n. \<forall>p\<in>set sel. p \<in> set (note_people n))"
  by (simp add: note_matches_def list_all_iff fun_eq_iff)

text \<open>
  C7: the view \<open>getFilteredNotes\<close> returns. With an empty selection it holds all notes
  of the Store; with a selection and a mode other than \<open>and\<close> (the mode \<open>or\<close>) exactly
  the notes that name at least one selected identity; with a selection and the mode
  \<open>and\<close> exactly the notes that name every selected identity; each note as often as the
  Store holds it. In every case the view is in ascending order of timestamp.
\<close>

theorem getFilteredNotes_view:
  "(selectedPeople e = [] \<longrightarrow> mset (fst (getFilteredNotes e s)) = mset (notes s))
   \<and> (selectedPeople e \<noteq> [] \<and> filterMode e \<noteq> ''and'' \<longrightarrow>
        mset (fst (getFilteredNotes e s))
        = filter_mset (\<lambda>n. \<exists>p\<in>set (selectedPeople e). p \<in> set (note_people n))
            (mset (notes s)))
   \<and> (selectedPeople e \<noteq> [] \<and> filterMode e = ''and'' \<longrightarrow>
        mset (fst (getFilteredNotes e s))
        = filter_mset (\<lambda>n. \<forall>p\<in>set (selectedPeople e). p \<in> set (note_people n))
            (mset (notes s)))
   \<and> sorted_wrt (\<lambda>a b. num_le (timestamp a) (timestamp b)) (fst (getFilteredNotes e s))"
proof (intro conjI impI)
  assume "selectedPeople e = []"
  then show "mset (fst (getFilteredNotes e s)) = mset (notes s)"
    by (simp add: getFilteredNotes_def mset_array_sort)
next
  assume a: "selectedPeople e \<noteq> [] \<and> filterMode e \<noteq> ''and''"
  then have "filter (note_matches (filterMode e) (selectedPeople e)) (notes s)
             = filter (\<lambda>n. \<exists>p\<in>set (selectedPeople e). p \<in> set (note_people n)) (notes s)"
    by (simp add: note_matches_or)
  with a show "mset (fst (getFilteredNotes e s))
        = filter_mset (\<lambda>n. \<exists>p\<in>set (selectedPeople e). p \<in> set (note_people n))
            (mset (notes s))"
    by (simp add: getFilteredNotes_def mset_array_sort)
next
  assume a: "selectedPeople e \<noteq> [] \<and> filterMode e = ''and''"
  then have "filter (note_matches (filterMode e) (selectedPeople e)) (notes s)
             = filter (\<lambda>n. \<forall>p\<in>set (selectedPeople e). p \<in> set (note_people n)) (notes s)"
    by (simp add: note_matches_and)
  with a show "mset (fst (getFilteredNotes e s))
        = filter_mset (\<lambda>n. \<forall>p\<in>set (selectedPeople e). p \<in> set (note_people n))
            (mset (notes s))"
    by (simp add: getFilteredNotes_def mset_array_sort)
next
  show "sorted_wrt (\<lambda>a b. num_le (timestamp a) (timestamp b)) (fst (getFilteredNotes e s))"
    by (simp add: getFilteredNotes_def sorted_array_sort)
qed

lemmas ex_defs = example_app_def example_env_def note_A_def note_B_def note_C_def
  selectedPeople_def filterMode_def

text \<open>
  The specification's example: selection \<open>{x}\<close> with \<open>or\<close> gives \<open>{A, B}\<close>,
  selection \<open>{x, y}\<close> with \<open>and\<close> gives \<open>{B}\<close>, and the empty selection gives all
  three notes, sorted.
\<close>

theorem getFilteredNotes_view_witness:
  "mset (fst (getFilteredNotes (example_env [''x''] ''or'') example_app)) = {#note_A, note_B#}
   \<and> mset (fst (getFilteredNotes (example_env [''x'', ''y''] ''and'') example_app)) = {#note_B#}
   \<and> mset (fst (getFilteredNotes (example_env [] ''or'') example_app))
       = {#note_A, note_B, note_C#}
   \<and> sorted_wrt (\<lambda>a b. num_le (timestamp a) (timestamp b))
        (fst (getFilteredNotes (example_env [] ''or'') example_app))"
  using getFilteredNotes_view [of "example_env [''x''] ''or''" example_app]
    getFilteredNotes_view [of "example_env [''x'', ''y''] ''and''" example_app]
    getFilteredNotes_view [of "example_env [] ''or''" example_app]
  by (simp add: ex_defs)

text \<open>
  What holds of the effect of \<open>getFilteredNotes\<close>: with a selection the state is left as
  it was, and without one only the order of the Store changes.
\<close>

lemma getFilteredNotes_selection_keeps_state:
  "selectedPeople e \<noteq> [] \<Longrightarrow> snd (getFilteredNotes e s) = s"
  by (simp add: getFilteredNotes_def)

lemma getFilteredNotes_keeps_content:
  "mset (notes (snd (getFilteredNotes e s))) = mset (notes s)
   \<and> people (snd (getFilteredNotes e s)) = people s"
  by (simp add: getFilteredNotes_def mset_array_sort)

text \<open>
  C2: \<open>getFilteredNotes\<close> is not free of effects. With an empty selection it sorts
  \<open>this.notes\<close> itself: the Store \<open>A, B, C\<close> (timestamps 30, 10, 20) is \<open>B, C, A\<close>
  after one evaluation.
\<close>

theorem getFilteredNotes_sorts_store:
  "notes example_app = [note_A, note_B, note_C]
   \<and> notes (snd (getFilteredNotes (example_env [] ''or'') example_app))
       = [note_B, note_C, note_A]"
  by (simp add: ex_defs getFilteredNotes_def array_sort_def by_timestamp_def)

section \<open>Properties of the Annotation Store\<close>

lemma notes_renderNotes: "mset (notes (renderNotes e s)) = mset (notes s)"
  by (simp add: renderNotes_def getFilteredNotes_def mset_array_sort)

lemma people_renderNotes: "people (renderNotes e s) = people s"
  by (simp add: renderNotes_def getFilteredNotes_def)

lemma renderNotes_selection:
  "selectedPeople e \<noteq> [] \<Longrightarrow> renderNotes e s = s"
  by (simp add: renderNotes_def getFilteredNotes_def)

lemma notes_register_people: "notes (register_people ps s) = notes s"
proof -
  have "notes (fold (\<lambda>person st. if person \<notin> set (people st) then addPerson person st else st) ps s)
        = notes s"
    by (induction ps arbitrary: s) (auto simp: addPerson_def)
  then show ?thesis by (simp add: register_people_def)
qed

lemma addNote_blank: "trim txt = [] \<Longrightarrow> addNote e txt ppl ts s = s"
  by (simp add: addNote_def)

lemma mset_notes_addNote:
  "trim txt \<noteq> [] \<Longrightarrow>
   mset (notes (addNote e txt ppl ts s))
   = add_mset \<lparr>note_id = toString (now_ms e), note_text = trim txt,
                note_people = filter (\<lambda>p. trim p \<noteq> []) ppl,
                timestamp = (if truthy_num ts then the ts else currentTime s),
                createdAt = now_iso e, updatedAt = None\<rparr> (mset (notes s))"
  by (simp add: addNote_def Let_def notes_register_people notes_renderNotes)

lemma distinct_ids_mset:
  "mset xs = mset ys \<Longrightarrow> distinct (map note_id xs) = distinct (map note_id ys)"
proof -
  assume "mset xs = mset ys"
  then have "mset (map note_id xs) = mset (map note_id ys)" by simp
  then show ?thesis by (rule mset_eq_imp_distinct_iff)
qed

lemma distinct_ids_renderNotes:
  "distinct (map note_id (notes (renderNotes e s))) = distinct (map note_id (notes s))"
  by (rule distinct_ids_mset) (rule notes_renderNotes)

lemma length_notes_renderNotes: "length (notes (renderNotes e s)) = length (notes s)"
  using notes_renderNotes [of e s] by (metis size_mset)

lemma filter_absent_id:
  "i \<notin> note_id ` set xs \<Longrightarrow> filter (\<lambda>n. note_id n \<noteq> i) xs = xs"
  by (induction xs) auto

lemma delete_at_most_one:
  "distinct (map note_id xs) \<Longrightarrow> length xs \<le> Suc (length (filter (\<lambda>n. note_id n \<noteq> i) xs))"
proof (induction xs)
  case Nil
  then show ?case by simp
next
  case (Cons a xs)
  show ?case
  proof (cases "note_id a = i")
    case True
    with Cons.prems have "i \<notin> note_id ` set xs" by auto
    then have "filter (\<lambda>n. note_id n \<noteq> i) xs = xs" by (rule filter_absent_id)
    with True show ?thesis by simp
  next
    case False
    with Cons show ?thesis by simp
  qed
qed

text \<open>Different clock readings have different decimal renderings.\<close>

lemma toString_nonempty: "toString n \<noteq> []"
  by (subst toString.simps) simp

lemma digit_char_inj: "a < 10 \<Longrightarrow> b < 10 \<Longrightarrow> digit_char a = digit_char b \<Longrightarrow> a = b"
proof -
  assume a: "a < 10" and b: "b < 10" and eq: "digit_char a = digit_char b"
  have d: "distinct ''0123456789''" by simp
  have "a < length ''0123456789''" "b < length ''0123456789''" using a b by simp_all
  with d eq show "a = b" unfolding digit_char_def by (simp only: nth_eq_iff_index_eq)
qed

lemma toString_inj: "toString a = toString b \<Longrightarrow> a = b"
proof (induction a arbitrary: b rule: toString.induct)
  case (1 n)
  show ?case
  proof (cases "n < 10")
    case small_n: True
    show ?thesis
    proof (cases "b < 10")
      case True
      with small_n "1.prems" show ?thesis
        by (simp add: toString.simps [of n] toString.simps [of b] digit_char_inj)
    next
      case False
      with small_n "1.prems" toString_nonempty [of "b div 10"] show ?thesis
        by (simp add: toString.simps [of n] toString.simps [of b])
    qed
  next
    case big_n: False
    show ?thesis
    proof (cases "b < 10")
      case True
      with big_n "1.prems" toString_nonempty [of "n div 10"] show ?thesis
        by (simp add: toString.simps [of n] toString.simps [of b])
    next
      case False
      with big_n "1.prems" have "toString (n div 10) = toString (b div 10)"
        and "digit_char (n mod 10) = digit_char (b mod 10)"
        by (simp_all add: toString.simps [of n] toString.simps [of b])
      with big_n "1.IH" have "n div 10 = b div 10" and "n mod 10 = b mod 10"
        by (auto intro: digit_char_inj)
      then show ?thesis by (metis div_mult_mod_eq)
    qed
  qed
qed

text \<open>
  C5 (as amended): ids are unique as long as the clock separates the calls. If the ids
  of the Store are pairwise distinct and none of them is the decimal rendering of the
  clock reading \<open>Date.now()\<close> of this call, they are pairwise distinct after \<open>addNote\<close>,
  and \<open>deleteNote\<close> with any id then removes at most one note.
\<close>

theorem addNote_fresh_id:
  assumes "distinct (map note_id (notes s))"
    and "toString (now_ms e) \<notin> set (map note_id (notes s))"
  shows "distinct (map note_id (notes (addNote e txt ppl ts s)))
         \<and> length (notes (addNote e txt ppl ts s))
             \<le> Suc (length (notes (deleteNote e' i (addNote e txt ppl ts s))))"
proof -
  have d: "distinct (map note_id (notes (addNote e txt ppl ts s)))"
  proof (cases "trim txt = []")
    case True
    with assms show ?thesis by (simp add: addNote_blank)
  next
    case False
    have "mset (map note_id (notes (addNote e txt ppl ts s)))
          = mset (map note_id (notes s @ [\<lparr>note_id = toString (now_ms e), note_text = trim txt,
                note_people = filter (\<lambda>p. trim p \<noteq> []) ppl,
                timestamp = (if truthy_num ts then the ts else currentTime s),
                createdAt = now_iso e, updatedAt = None\<rparr>]))"
      by (simp add: mset_notes_addNote [OF False])
    then have "distinct (map note_id (notes (addNote e txt ppl ts s)))
          = distinct (map note_id (notes s @ [\<lparr>note_id = toString (now_ms e), note_text = trim txt,
                note_people = filter (\<lambda>p. trim p \<noteq> []) ppl,
                timestamp = (if truthy_num ts then the ts else currentTime s),
                createdAt = now_iso e, updatedAt = None\<rparr>]))"
      by (rule mset_eq_imp_distinct_iff)
    with assms show ?thesis by simp
  qed
  have "length (notes (deleteNote e' i t)) = length (filter (\<lambda>n. note_id n \<noteq> i) (notes t))" for t
    by (simp add: deleteNote_def length_notes_renderNotes)
  with d delete_at_most_one show ?thesis by simp
qed

text \<open>The example Store and a call at a later clock reading satisfy the hypotheses.\<close>

theorem addNote_fresh_id_witness:
  "distinct (map note_id (notes (addNote (example_env [] ''or'') ''D'' [''x''] None example_app)))
   \<and> length (notes (addNote (example_env [] ''or'') ''D'' [''x''] None example_app))
       \<le> Suc (length (notes (deleteNote (example_env [] ''or'') ''1700000000002''
            (addNote (example_env [] ''or'') ''D'' [''x''] None example_app))))"
  using addNote_fresh_id [of example_app "example_env [] ''or''" "''D''" "[''x'']" None
      "example_env [] ''or''" "''1700000000002''"]
  by (simp add: ex_defs toString.simps digit_char_def)

text \<open>
  C5 as stated fails: two calls of \<open>addNote\<close> at the same clock reading give two notes
  with the same id.
\<close>

theorem addNote_same_clock_same_id:
  "\<not> distinct (map note_id (notes
       (addNote (example_env [] ''or'') ''E'' [] None
         (addNote (example_env [] ''or'') ''D'' [] None example_app))))"
  by (simp add: ex_defs addNote_def trim_def is_ws_def renderNotes_def getFilteredNotes_def 
      array_sort_def by_timestamp_def register_people_def digit_char_def toString.simps)


text \<open>The definitions that evaluating an operation on concrete values unfolds.\<close>

lemmas run_defs = addNote_def updateNote_def trim_def is_ws_def renderNotes_def
  getFilteredNotes_def array_sort_def by_timestamp_def register_people_def addPerson_def
  digit_char_def note_matches_def toString.simps

text \<open>
  C3: \<open>updateNote\<close> has no check of the text. On the example Store, with a selection
  active so that rendering does not reorder it, updating note \<open>A\<close> with the empty text
  stores the empty text in the note; \<open>addNote_blank\<close> above is the half of the claim that
  holds.
\<close>

theorem updateNote_blank_text_changes_note:
  "map note_text (notes example_app) = [''A'', ''B'', ''C'']
   \<and> map note_text (notes (updateNote (example_env [''x''] ''or'') ''1700000000001'' [] [''x'']
          (Num 30) example_app)) = [[], ''B'', ''C'']"
  by (simp add: ex_defs run_defs)

text \<open>Registration: what \<open>addNote\<close> adds to the Registry, and in which order.\<close>

lemma people_register_people:
  "people (register_people ps s)
   = people s @ first_seen (filter (\<lambda>p. p \<noteq> [] \<and> p \<notin> set (people s)) ps)"
proof (induction ps arbitrary: s)
  case Nil
  then show ?case by (simp add: register_people_def)
next
  case (Cons p ps)
  show ?case
  proof (cases "p = [] \<or> p \<in> set (people s)")
    case True
    then have "register_people (p # ps) s = register_people ps s"
      by (auto simp: register_people_def addPerson_def)
    with True Cons.IH [of s] show ?thesis by auto
  next
    case False
    define s1 where "s1 = s\<lparr>people := people s @ [p]\<rparr>"
    from False have "register_people (p # ps) s = register_people ps s1"
      by (simp add: register_people_def addPerson_def s1_def)
    moreover have "filter (\<lambda>q. q \<noteq> [] \<and> q \<notin> set (people s1)) ps
        = filter (\<lambda>y. y \<noteq> p) (filter (\<lambda>q. q \<noteq> [] \<and> q \<notin> set (people s)) ps)"
      by (auto simp: s1_def intro: filter_cong)
    ultimately show ?thesis
      using False Cons.IH [of s1] by (simp add: s1_def)
  qed
qed

lemma set_first_seen: "set (first_seen xs) = set xs"
  by (induction xs rule: first_seen.induct) auto

lemma distinct_first_seen: "distinct (first_seen xs)"
  by (induction xs rule: first_seen.induct) (auto simp: set_first_seen)

lemma people_addNote:
  "trim txt \<noteq> [] \<Longrightarrow>
   people (addNote e txt ppl ts s)
   = people s @ first_seen (filter (\<lambda>p. p \<notin> set (people s)) (filter (\<lambda>p. trim p \<noteq> []) ppl))"
proof -
  assume a: "trim txt \<noteq> []"
  have "trim p \<noteq> [] \<Longrightarrow> p \<noteq> []" for p by (auto simp: trim_def)
  then have "filter (\<lambda>p. p \<noteq> [] \<and> p \<notin> set (people s)) (filter (\<lambda>p. trim p \<noteq> []) ppl)
      = filter (\<lambda>p. p \<notin> set (people s)) (filter (\<lambda>p. trim p \<noteq> []) ppl)"
    by (auto intro: filter_cong)
  with a show ?thesis
    by (simp add: addNote_def Let_def people_register_people people_renderNotes)
qed

lemma registered_after_addNote:
  "trim txt \<noteq> [] \<Longrightarrow> p \<in> set ppl \<Longrightarrow> trim p \<noteq> [] \<Longrightarrow>
   p \<in> set (people (addNote e txt ppl ts s))"
  by (auto simp: people_addNote set_first_seen)

text \<open>
  C4: \<open>timestamp || this.currentTime\<close> takes the playback position for every falsy
  timestamp, and \<open>0\<close> is falsy: a note added with the timestamp \<open>0\<close> while the
  playback position is 42 is stored with the timestamp 42.
\<close>

theorem addNote_zero_timestamp:
  "currentTime example_app = Num 42
   \<and> map timestamp (notes (addNote (example_env [''x''] ''or'') ''D'' [] (Some (Num 0))
         example_app)) = [Num 30, Num 10, Num 20, Num 42]"
  by (simp add: ex_defs run_defs)

text \<open>
  C9: the state after adding the text \<open>" D  "\<close> with the identities
  \<open>["z", " ", "x", "z"]\<close> and the timestamp \<open>0\<close> at playback position 42. The note has
  the trimmed text and the identity list without the blank entry, and \<open>z\<close> is registered;
  its timestamp is 42, not the one given. The lemmas \<open>mset_notes_addNote\<close> and
  \<open>people_addNote\<close> above describe every valid call.
\<close>

theorem addNote_content_zero_timestamp:
  "addNote (example_env [''x''] ''or'') '' D  '' [''z'', '' '', ''x'', ''z''] (Some (Num 0))
     example_app
   = example_app
      \<lparr>people := [''x'', ''y'', ''z''],
       notes := [note_A, note_B, note_C,
         \<lparr>note_id = ''1700000000500'', note_text = ''D'', note_people = [''z'', ''x'', ''z''],
          timestamp = Num 42, createdAt = ''2023-11-14T22:13:20.500Z'', updatedAt = None\<rparr>]\<rparr>"
  by (simp add: ex_defs run_defs)

section \<open>Properties of the Timestamp Parser\<close>

lemmas parse_defs = parseTimestamp_def parseFloat_def unsigned_literal_def timeMatch_def
  is_digit_def is_ws_def digit_val_def digits_val_def exponent_part_def scale10_def Let_def

text \<open>The part of the specification's examples that holds: \<open>"90"\<close>, \<open>""\<close> and \<open>"-5"\<close>.\<close>

lemma parseTimestamp_seconds_examples:
  "parseTimestamp ''90'' = Some (Num 90) \<and> parseTimestamp [] = None
   \<and> parseTimestamp ''-5'' = None"
  by (simp add: parse_defs)

text \<open>
  An input of the form minutes, colon, two digits starts with digits, so \<open>parseFloat\<close>
  reads the minutes as a number of seconds, and the branch that converts minutes and
  seconds is never reached.
\<close>

lemma digit_not_special:
  "is_digit c \<Longrightarrow> \<not> is_ws c \<and> c \<noteq> CHR ''+'' \<and> c \<noteq> CHR ''-'' \<and> c \<noteq> CHR ''I''"
  by (auto simp: is_digit_def is_ws_def)

lemma parseFloat_time_format:
  assumes "timeMatch input = Some (m, ss)"
  shows "parseFloat input = Some (Num (of_nat (digits_val m)))"
proof -
  from assms obtain d1 d2 where
    rest: "dropWhile is_digit input = [CHR '':'', d1, d2]"
    and m: "takeWhile is_digit input = m" "m \<noteq> []"
    by (auto simp: timeMatch_def split: list.splits if_splits)
  from m obtain c r where input: "input = c # r" and c: "is_digit c"
    by (cases input) (auto split: if_splits)
  from c have nows: "dropWhile is_ws input = input"
    by (simp add: input digit_not_special)
  from c have "take 8 input \<noteq> ''Infinity''"
    by (auto simp: input digit_not_special)
  then have "unsigned_literal input = Some (Num (of_nat (digits_val m)))"
    using rest m by (simp add: unsigned_literal_def exponent_part_def scale10_def)
  with c nows show ?thesis
    by (simp add: parseFloat_def input [symmetric] digit_not_special)
       (simp add: input digit_not_special)
qed

lemma parseTimestamp_time_format:
  "timeMatch input = Some (m, ss) \<Longrightarrow> parseTimestamp input = Some (Num (of_nat (digits_val m)))"
proof -
  assume a: "timeMatch input = Some (m, ss)"
  then have "input \<noteq> []" by (auto simp: timeMatch_def)
  with parseFloat_time_format [OF a] show ?thesis
    by (simp add: parseTimestamp_def)
qed

text \<open>
  C1: \<open>"1:30"\<close> parses to \<open>1\<close>, not to \<open>90\<close>, and \<open>"1:60"\<close> parses to \<open>1\<close> instead of
  failing: the seconds grammar accepts the digits before the colon.
\<close>

theorem parseTimestamp_colon_inputs:
  "parseTimestamp ''1:30'' = Some (Num 1) \<and> parseTimestamp ''1:60'' = Some (Num 1)"
  by (simp add: parse_defs)

section \<open>Properties of the Project Serializer\<close>





















text \<open>The definitions that evaluating a load on concrete values unfolds.\<close>

lemmas load_defs = loadProject_def importData_def replace_project_def downloaded_def
  exportData_def project_data_def json_of_note_def json_of_videoId_def decode_youtubeId_def
  decode_people_def decode_notes_def decode_note_def or_empty_def endsWith_def toLowerCase_def
  lower_char_def videoId_or_project_def loadVideoFromId_def watch_url_def written_note_def
  is_array_def is_number_def raw_by_timestamp_def raw_timestamp_def displayable_def


text \<open>
  The self-contained document: a person named \<open></script>\<close> is written into the script
  element as it is, and the content of the element ends inside the array literal.
\<close>

lemma people_statement_cut:
  "people_statement (example_app\<lparr>people := [''</script>'']\<rparr>)
     = ''this.people = [\"</script>\"];''
   \<and> script_data (people_statement (example_app\<lparr>people := [''</script>'']\<rparr>))
     = ''this.people = [\"''"
  by (simp add: people_statement_def stringify_strings_def stringify_string_def json_escape_def
      closes_script_def toLowerCase_def lower_char_def ex_defs)

text \<open>
  C6 (as amended): a file whose text does not parse as JSON, or parses to \<open>null\<close>,
  makes \<open>loadProject\<close> and \<open>importData\<close> report an error and leave the state as it was.
\<close>

theorem load_unparseable_keeps_project:
  "parsed f = None \<or> parsed f = Some JNull \<Longrightarrow>
   fails_keeping s (loadProject e pg f s) \<and> fails_keeping s (importData e pg f s)"
  by (auto simp: fails_keeping_def loadProject_def importData_def)

text \<open>A file whose text is no JSON.\<close>

theorem load_unparseable_keeps_project_witness:
  "fails_keeping example_app
     (loadProject (example_env [] ''or'') example_page broken_file example_app)
   \<and> fails_keeping example_app
     (importData (example_env [] ''or'') example_page broken_file example_app)"
proof -
  have h: "parsed broken_file = None \<or> parsed broken_file = Some JNull"
    by (simp add: broken_file_def)
  show ?thesis by (rule load_unparseable_keeps_project [OF h])
qed

text \<open>
  C6 as stated fails: the document \<open>{}\<close> parses and has neither the shape of a named
  project nor that of a flat export. \<open>loadProject\<close> hands it to \<open>importData\<close>, which
  takes the missing \<open>people\<close> and \<open>notes\<close> as empty, replaces the Registry and the Store
  by them and reports success.
\<close>

theorem load_empty_object_clears_project:
  "loadProject (example_env [] ''or'') example_page empty_object_file example_app
   = Done Success_data_imported (example_app\<lparr>people := [], notes := []\<rparr>)"
  by (simp add: load_defs empty_object_file_def ex_defs renderNotes_def getFilteredNotes_def
      array_sort_def)

text \<open>
  The document \<open>{"people":5}\<close>: the number is assigned to \<open>this.people\<close> and saved, then
  \<open>renderPeople\<close> throws and the error is reported, with the Registry and the Store
  already replaced.
\<close>

lemma load_people_number_overwrites:
  "loadProject (example_env [] ''or'') example_page people_number_file example_app
   = Overwritten Error_importing_data None (JNum (Num 5)) (JArr [])"
  by (simp add: load_defs people_number_file_def example_page_def)

end
